theory Spec2Isabelle
  imports Main
begin

section \<open>Python values, errors and outcomes\<close>

text \<open>
  The engine of \<^verbatim>\<open>src/substitutor.py\<close> works on the trees that \<^verbatim>\<open>json.load\<close> and
  \<^verbatim>\<open>toml.load\<close> return: \<^verbatim>\<open>None\<close>, booleans, integers, strings, lists and
  dictionaries. A dictionary is an association list in insertion order (Python dictionaries
  iterate in insertion order); a well-formed one has distinct keys. Keys are strings in every
  loaded document, but \<^verbatim>\<open>apply_direct_overrides\<close> can store an integer key, so a key is
  either. Floating-point scalars are not modelled. A character is a code point below 256.
\<close>

datatype dkey = KStr string | KInt int

datatype pyval =
    PNone
  | PBool bool
  | PInt int
  | PStr string
  | PList "pyval list"
  | PDict "(dkey \<times> pyval) list"

datatype error =
    TypeError | KeyError | IndexError | AttributeError | ValueError | AssertionError
  | Unsupported

text \<open>
  A call either returns a value (\<open>Some (Inr v)\<close>), raises (\<open>Some (Inl e)\<close>), or does not
  return (\<open>None\<close>): the \<^verbatim>\<open>while\<close> loop of \<^verbatim>\<open>resolve_variable\<close> runs forever on a
  binding that refers to itself, and the recursion of \<^verbatim>\<open>substitute_variables\<close> is bounded
  by a fuel argument. The errors are Python's exceptions, except \<open>Unsupported\<close>, which
  only the model of \<^verbatim>\<open>re.match\<close> below returns, for a pattern it does not cover.
\<close>

type_synonym 'a outcome = "(error + 'a) option"

definition ok :: "'a \<Rightarrow> 'a outcome" where
  "ok x = Some (Inr x)"

definition raise :: "error \<Rightarrow> 'a outcome" where
  "raise e = Some (Inl e)"

definition bind :: "'a outcome \<Rightarrow> ('a \<Rightarrow> 'b outcome) \<Rightarrow> 'b outcome" where
  "bind m f = (case m of None \<Rightarrow> None | Some (Inl e) \<Rightarrow> Some (Inl e) | Some (Inr x) \<Rightarrow> f x)"

text \<open>Python truthiness (\<^verbatim>\<open>if value\<close>, \<^verbatim>\<open>not value\<close>).\<close>

fun truthy :: "pyval \<Rightarrow> bool" where
  "truthy PNone = False"
| "truthy (PBool b) = b"
| "truthy (PInt n) = (n \<noteq> 0)"
| "truthy (PStr s) = (s \<noteq> [])"
| "truthy (PList xs) = (xs \<noteq> [])"
| "truthy (PDict kvs) = (kvs \<noteq> [])"

definition dict_get :: "pyval \<Rightarrow> dkey \<Rightarrow> pyval option" where
  "dict_get d k = (case d of PDict kvs \<Rightarrow> map_of kvs k | _ \<Rightarrow> None)"

section \<open>Strings and the fixed regular expressions\<close>

definition code :: "char \<Rightarrow> nat" where
  "code c = of_char c"

text \<open>The character classes \<^verbatim>\<open>[a-zA-Z0-9]\<close> and \<^verbatim>\<open>[a-zA-Z0-9._]\<close> of the patterns.\<close>

definition alnum :: "char \<Rightarrow> bool" where
  "alnum c = ((48 \<le> code c \<and> code c \<le> 57) \<or> (65 \<le> code c \<and> code c \<le> 90)
     \<or> (97 \<le> code c \<and> code c \<le> 122))"

definition name_char :: "char \<Rightarrow> bool" where
  "name_char c = (alnum c \<or> c = CHR ''.'' \<or> c = CHR ''_'')"

text \<open>
  \<^verbatim>\<open>\s\<close> and \<^verbatim>\<open>str.strip\<close>: the white space of Python below code point 256, which
  includes the separators 28 to 31, the next-line character 133 and the no-break space 160.
\<close>

definition is_space :: "char \<Rightarrow> bool" where
  "is_space c = ((9 \<le> code c \<and> code c \<le> 13) \<or> (28 \<le> code c \<and> code c \<le> 32)
     \<or> code c = 133 \<or> code c = 160)"

definition strip :: "string \<Rightarrow> string" where
  "strip s = dropWhile is_space (rev (dropWhile is_space (rev s)))"

definition startswith :: "string \<Rightarrow> string \<Rightarrow> bool" where
  "startswith s p = (take (length p) s = p)"

definition endswith :: "string \<Rightarrow> string \<Rightarrow> bool" where
  "endswith s p = (drop (length s - length p) s = p \<and> length p \<le> length s)"

text \<open>\<^verbatim>\<open>s.split(sep)\<close> for a one-character separator: never an empty list.\<close>

fun split_on :: "char \<Rightarrow> string \<Rightarrow> string list" where
  "split_on sep [] = [[]]"
| "split_on sep (c # cs) =
     (if c = sep then [] # split_on sep cs
      else (case split_on sep cs of p # ps \<Rightarrow> (c # p) # ps | [] \<Rightarrow> [[c]]))"

text \<open>
  \<^verbatim>\<open>s.replace(old, new)\<close>, left to right without overlap. Every \<open>old\<close> the source passes is
  non-empty; an empty \<open>old\<close> leaves the string as it is here.
\<close>

fun str_replace :: "string \<Rightarrow> string \<Rightarrow> string \<Rightarrow> string" where
  "str_replace old new [] = []"
| "str_replace old new (c # cs) =
     (if old \<noteq> [] \<and> startswith (c # cs) old
      then new @ str_replace old new (drop (length old - 1) cs)
      else c # str_replace old new cs)"

text \<open>
  \<^verbatim>\<open>re.search(ALPHA_PATTERN, s)\<close> with
  \<^verbatim>\<open>ALPHA_PATTERN = r'\.\.([a-zA-Z0-9][a-zA-Z0-9])'\<close>: group 1 of the leftmost match.
\<close>

fun alpha_search :: "string \<Rightarrow> string option" where
  "alpha_search (a # b # c # d # rest) =
     (if a = CHR ''.'' \<and> b = CHR ''.'' \<and> alnum c \<and> alnum d then Some [c, d]
      else alpha_search (b # c # d # rest))"
| "alpha_search _ = None"

text \<open>\<^verbatim>\<open>sep.join(parts)\<close>.\<close>

fun join :: "string \<Rightarrow> string list \<Rightarrow> string" where
  "join sep [] = []"
| "join sep [x] = x"
| "join sep (x # y # r) = x @ sep @ join sep (y # r)"

text \<open>Decimal digits of an integer, as \<^verbatim>\<open>str(n)\<close> and the f-string \<^verbatim>\<open>{index + 1}\<close> print it.\<close>

definition digit_char :: "nat \<Rightarrow> char" where
  "digit_char d = char_of (48 + d)"

fun str_nat :: "nat \<Rightarrow> string" where
  "str_nat n = (if n < 10 then [digit_char n] else str_nat (n div 10) @ [digit_char (n mod 10)])"

declare str_nat.simps [simp del]

definition str_int :: "int \<Rightarrow> string" where
  "str_int i = (if i < 0 then CHR ''-'' # str_nat (nat (- i)) else str_nat (nat i))"

section \<open>json.dumps\<close>

text \<open>
  \<^verbatim>\<open>json.dumps\<close> with its defaults: \<^verbatim>\<open>ensure_ascii\<close> escapes the quote, the backslash
  and every character outside the range from space to tilde; items are separated by a comma
  and a space, keys from values by a colon and a space; an integer key is written as a string.
\<close>

definition hex_char :: "nat \<Rightarrow> char" where
  "hex_char d = (if d < 10 then char_of (48 + d) else char_of (87 + d))"

definition json_escape :: "char \<Rightarrow> string" where
  \<open>json_escape c =
     (if c = CHR 0x22 then [CHR 0x5C, CHR 0x22]
      else if c = CHR 0x5C then [CHR 0x5C, CHR 0x5C]
      else if c = CHR 0x0A then [CHR 0x5C, CHR ''n'']
      else if c = CHR 0x0D then [CHR 0x5C, CHR ''r'']
      else if c = CHR 0x09 then [CHR 0x5C, CHR ''t'']
      else if c = CHR 0x08 then [CHR 0x5C, CHR ''b'']
      else if c = CHR 0x0C then [CHR 0x5C, CHR ''f'']
      else if code c < 32 \<or> 126 < code c
        then [CHR 0x5C, CHR ''u'', CHR ''0'', CHR ''0'', hex_char (code c div 16), hex_char (code c mod 16)]
      else [c])\<close>

definition json_string :: "string \<Rightarrow> string" where
  \<open>json_string s = CHR 0x22 # concat (map json_escape s) @ [CHR 0x22]\<close>

definition json_key :: "dkey \<Rightarrow> string" where
  "json_key k = (case k of KStr s \<Rightarrow> json_string s | KInt i \<Rightarrow> json_string (str_int i))"

fun json_dumps :: "pyval \<Rightarrow> string" where
  "json_dumps PNone = ''null''"
| "json_dumps (PBool b) = (if b then ''true'' else ''false'')"
| "json_dumps (PInt i) = str_int i"
| "json_dumps (PStr s) = json_string s"
| "json_dumps (PList xs) = ''['' @ join '', '' (map json_dumps xs) @ '']''"
| "json_dumps (PDict kvs) =
     ''{'' @ join '', '' (map (\<lambda>kv. json_key (fst kv) @ '': '' @ json_dumps (snd kv)) kvs) @ ''}''"

section \<open>Variable Resolver: \<^verbatim>\<open>resolve_variable\<close>\<close>

text \<open>
  Lines 50 to 58: the walk along the dotted path. It is also all that a call with
  \<^verbatim>\<open>had_alpha=True\<close> does.
\<close>

fun lookup_parts :: "pyval \<Rightarrow> string list \<Rightarrow> pyval" where
  "lookup_parts current [] = current"
| "lookup_parts current (part # parts) =
     (case dict_get current (KStr part) of
        Some v \<Rightarrow> lookup_parts v parts
      | None \<Rightarrow> PNone)"

definition lookup_path :: "string \<Rightarrow> pyval \<Rightarrow> pyval" where
  "lookup_path var_name toml_data = lookup_parts toml_data (split_on CHR ''.'' var_name)"

text \<open>
  Lines 43 and 44:
  \<^verbatim>\<open>while isinstance(value, str) and value.startswith('$'): value = resolve_variable(value[1:], toml_data, had_alpha=True)\<close>.
  The loop does not end on a binding such as \<^verbatim>\<open>a = "$a"\<close>; then the result is \<open>None\<close>.
\<close>

partial_function (option) follow_refs :: "pyval \<Rightarrow> pyval \<Rightarrow> pyval option" where
  "follow_refs toml_data v =
     (case v of
        PStr s \<Rightarrow> if startswith s ''$'' then follow_refs toml_data (lookup_path (tl s) toml_data)
                  else Some v
      | _ \<Rightarrow> Some v)"

declare follow_refs.simps [code]

text \<open>
  \<^verbatim>\<open>resolve_variable(var_name, toml_data, had_alpha)\<close> for a string \<open>var_name\<close>. With an alpha
  token the token is removed, the rest resolved and dereferenced; a falsy result gives
  \<^verbatim>\<open>None\<close>; \<^verbatim>\<open>re.search(ALPHA_PATTERN, value)\<close> raises \<^verbatim>\<open>TypeError\<close> on a value that
  is not a string; otherwise the token is appended unless the value holds one already.
\<close>

definition resolve_variable :: "string \<Rightarrow> pyval \<Rightarrow> bool \<Rightarrow> pyval outcome" where
  "resolve_variable var_name toml_data had_alpha =
     (case (if had_alpha then None else alpha_search var_name) of
        Some alpha \<Rightarrow>
          (case follow_refs toml_data
                  (lookup_path (str_replace (''..'' @ alpha) [] var_name) toml_data) of
             None \<Rightarrow> None
           | Some v \<Rightarrow>
               if \<not> truthy v then ok PNone
               else (case v of
                       PStr s \<Rightarrow> if alpha_search s \<noteq> None then ok v else ok (PStr (s @ alpha))
                     | _ \<Rightarrow> raise TypeError))
      | None \<Rightarrow> ok (lookup_path var_name toml_data))"

section \<open>Template Materializer: \<^verbatim>\<open>substitute_variables\<close>\<close>

text \<open>
  The two placeholder patterns,
  \<^verbatim>\<open>FILE_PATTERN = r'"(\$[a-zA-Z0-9._]+(?:\s*,\s*\$[a-zA-Z0-9._]+)*)"'\<close> and
  \<^verbatim>\<open>REC_PATTERN = r'(\$[a-zA-Z0-9._]+(?:\s*,\s*\$[a-zA-Z0-9._]+)*)'\<close>.
  Every quantifier is greedy and no shorter repetition can be followed by what the pattern
  asks next (a name character is neither white space, a comma nor a quote), so the match at
  a position is the greedy one or none. A match is returned as group 1 and the text after it.
\<close>

datatype pattern = FILE_PATTERN | REC_PATTERN

definition match_name :: "string \<Rightarrow> (string \<times> string) option" where
  "match_name s =
     (case s of
        [] \<Rightarrow> None
      | c # cs \<Rightarrow>
          if c = CHR ''$'' \<and> takeWhile name_char cs \<noteq> []
          then Some (c # takeWhile name_char cs, dropWhile name_char cs)
          else None)"

function match_more :: "string \<Rightarrow> string \<times> string" where
  "match_more s =
     (case dropWhile is_space s of
        [] \<Rightarrow> ([], s)
      | c # s2 \<Rightarrow>
          if c \<noteq> CHR '','' then ([], s)
          else (case match_name (dropWhile is_space s2) of
                  None \<Rightarrow> ([], s)
                | Some (n, rest) \<Rightarrow>
                    (case match_more rest of
                       (g, r) \<Rightarrow> (takeWhile is_space s @ '','' @ takeWhile is_space s2 @ n @ g, r))))"
  by pat_completeness auto
termination
proof (relation "measure length")
  show "wf (measure length)" by simp
next
  fix s :: string and c s2 x n rest
  assume a: "dropWhile is_space s = c # s2"
    and b: "match_name (dropWhile is_space s2) = Some x" and c: "(n, rest) = x"
  have "length rest < length (dropWhile is_space s2)"
    using b c by (auto simp: match_name_def length_dropWhile_le less_Suc_eq_le
        split: list.splits if_splits)
  moreover have "length (dropWhile is_space s2) \<le> length s2"
    by (rule length_dropWhile_le)
  moreover have "length (c # s2) \<le> length s"
    using a length_dropWhile_le [of is_space s] by simp
  ultimately show "(rest, s) \<in> measure length" by simp
qed

declare match_more.simps [simp del]

definition match_rec :: "string \<Rightarrow> (string \<times> string) option" where
  "match_rec s =
     (case match_name s of
        None \<Rightarrow> None
      | Some (n, rest) \<Rightarrow> (case match_more rest of (g, r) \<Rightarrow> Some (n @ g, r)))"

definition match_at :: "pattern \<Rightarrow> string \<Rightarrow> (string \<times> string) option" where
  \<open>match_at p s =
     (case p of
        REC_PATTERN \<Rightarrow> match_rec s
      | FILE_PATTERN \<Rightarrow>
          (case s of
             [] \<Rightarrow> None
           | c # t \<Rightarrow>
               if c \<noteq> CHR 0x22 then None
               else (case match_rec t of
                       None \<Rightarrow> None
                     | Some (g, r) \<Rightarrow>
                         (case r of
                            [] \<Rightarrow> None
                          | d # r' \<Rightarrow> if d = CHR 0x22 then Some (g, r') else None))))\<close>

text \<open>
  \<^verbatim>\<open>re.sub(pattern, replacer, text)\<close>: the text is scanned from the left, each match is
  replaced by what \<open>repl\<close> returns for its group 1 and scanning goes on after the match; the
  first call of \<open>repl\<close> that raises or does not return ends the substitution.
\<close>

function re_sub :: "pattern \<Rightarrow> (string \<Rightarrow> string outcome) \<Rightarrow> string \<Rightarrow> string outcome" where
  "re_sub p repl [] = ok []"
| "re_sub p repl (c # cs) =
     (case match_at p (c # cs) of
        None \<Rightarrow>
          (case re_sub p repl cs of
             None \<Rightarrow> None
           | Some (Inl e) \<Rightarrow> Some (Inl e)
           | Some (Inr t) \<Rightarrow> ok (c # t))
      | Some (g, rest) \<Rightarrow>
          (case repl g of
             None \<Rightarrow> None
           | Some (Inl e) \<Rightarrow> Some (Inl e)
           | Some (Inr r) \<Rightarrow>
               (case re_sub p repl rest of
                  None \<Rightarrow> None
                | Some (Inl e) \<Rightarrow> Some (Inl e)
                | Some (Inr t) \<Rightarrow> ok (r @ t))))"
  by pat_completeness auto
termination
proof (relation "measure (\<lambda>(p, repl, s). length s)")
  show "wf (measure (\<lambda>(p, repl, s). length s))" by simp
next
  fix p :: pattern and repl :: "string \<Rightarrow> string outcome" and c cs
  show "((p, repl, cs), (p, repl, c # cs)) \<in> measure (\<lambda>(p, repl, s). length s)" by simp
next
  fix p :: pattern and repl :: "string \<Rightarrow> string outcome" and c cs x g rest
  assume m: "match_at p (c # cs) = Some x" and x: "(g, rest) = x"
  have name: "length r < length s" if "match_name s = Some (n, r)" for s n r
    using that by (auto simp: match_name_def length_dropWhile_le less_Suc_eq_le
        split: list.splits if_splits)
  have more: "length (snd (match_more s)) \<le> length s" for s
  proof (induction s rule: match_more.induct)
    case (1 s)
    show ?case
    proof (cases "dropWhile is_space s")
      case Nil
      have "match_more s = ([], s)"
        by (subst match_more.simps) (simp only: Nil list.case)
      then show ?thesis by simp
    next
      case (Cons d s2)
      note ds = Cons
      show ?thesis
      proof (cases "d \<noteq> CHR '',''")
        case True
        have "match_more s = ([], s)"
          by (subst match_more.simps) (simp only: ds list.case, simp add: True)
        then show ?thesis by simp
      next
        case False
        show ?thesis
        proof (cases "match_name (dropWhile is_space s2)")
          case None
          have "match_more s = ([], s)"
            using False
            by (subst match_more.simps) (simp only: ds list.case, simp add: None)
          then show ?thesis by simp
        next
          case (Some nr)
          obtain n r where nr: "nr = (n, r)" by (cases nr)
          have ih: "length (snd (match_more r)) \<le> length r"
            using "1.IH" [OF ds _ Some nr [symmetric]] False by simp
          have "length r < length (dropWhile is_space s2)"
            using name Some nr by simp
          moreover have "length (dropWhile is_space s2) \<le> length s2"
            by (rule length_dropWhile_le)
          moreover have "length (d # s2) \<le> length s"
            using ds length_dropWhile_le [of is_space s] by simp
          ultimately have "length (snd (match_more r)) \<le> length s"
            using ih by simp
          moreover have "snd (match_more s) = snd (match_more r)"
            using False
            by (subst match_more.simps)
              (simp only: ds list.case, simp add: Some nr split: prod.splits)
          ultimately show ?thesis by simp
        qed
      qed
    qed
  qed
  have recm: "length r < length s" if "match_rec s = Some (g', r)" for s g' r
  proof -
    from that obtain n r0 where n: "match_name s = Some (n, r0)" and r: "r = snd (match_more r0)"
      by (auto simp: match_rec_def split: option.splits prod.splits)
    from name [OF n] more [of r0] r show ?thesis by simp
  qed
  have "length rest < length (c # cs)"
  proof (cases p)
    case REC_PATTERN
    with m x recm [of "c # cs" g rest] show ?thesis by (simp add: match_at_def)
  next
    case FILE_PATTERN
    with m x obtain r where "match_rec cs = Some (g, r)" and "length rest < length r"
      by (auto simp: match_at_def split: option.splits list.splits if_splits)
    with recm [of cs g r] show ?thesis by simp
  qed
  then show "((p, repl, rest), (p, repl, c # cs)) \<in> measure (\<lambda>(p, repl, s). length s)" by simp
qed

fun map_outcome :: "('a \<Rightarrow> 'b outcome) \<Rightarrow> 'a list \<Rightarrow> 'b list outcome" where
  "map_outcome f [] = ok []"
| "map_outcome f (x # xs) =
     (case f x of
        None \<Rightarrow> None
      | Some (Inl e) \<Rightarrow> Some (Inl e)
      | Some (Inr y) \<Rightarrow>
          (case map_outcome f xs of
             None \<Rightarrow> None
           | Some (Inl e) \<Rightarrow> Some (Inl e)
           | Some (Inr ys) \<Rightarrow> ok (y # ys)))"

text \<open>
  One round of the loop \<^verbatim>\<open>for var_name in var_names\<close> in \<^verbatim>\<open>replacer\<close>: \<open>None\<close> is
  \<^verbatim>\<open>continue\<close>, \<open>Some r\<close> is \<^verbatim>\<open>return r\<close>. \<open>last_name\<close> is \<^verbatim>\<open>var_names[-1]\<close>, which keeps
  its leading \<^verbatim>\<open>$\<close>, while \<open>var_name\<close> has lost it. \<open>subst\<close> is the recursive call
  \<^verbatim>\<open>substitute_variables(_, toml_data, recursive=True, quotes=_)\<close>; on an item that is not a
  string its \<^verbatim>\<open>re.sub\<close> raises \<^verbatim>\<open>TypeError\<close>.
\<close>

definition replacer_round ::
  "(string \<Rightarrow> bool \<Rightarrow> string outcome) \<Rightarrow> pyval \<Rightarrow> bool \<Rightarrow> string \<Rightarrow> string \<Rightarrow> string option outcome"
where
  "replacer_round subst toml_data quotes last_name name =
     (let var_name = (if startswith name ''$'' then tl name else name) in
      bind (resolve_variable var_name toml_data False) (\<lambda>value.
      bind (if value = PNone \<and> var_name = last_name
            then resolve_variable (hd (split_on CHR ''.'' var_name)) toml_data False
            else ok value) (\<lambda>value.
        case value of
          PNone \<Rightarrow> ok None
        | PBool b \<Rightarrow> ok None
        | PDict kvs \<Rightarrow> ok None
        | PList items \<Rightarrow>
            bind (map_outcome (\<lambda>item. case item of PStr s \<Rightarrow> subst s False | _ \<Rightarrow> raise TypeError)
                    items)
              (\<lambda>vs. ok (Some (json_dumps (PList (map PStr vs)))))
        | PStr s \<Rightarrow>
            if CHR ''$'' \<in> set s then bind (subst s quotes) (\<lambda>r. ok (Some r))
            else ok (Some (if quotes then json_dumps (PStr s) else s))
        | PInt i \<Rightarrow> ok (Some (json_dumps (PInt i))))))"

fun replacer_loop :: "(string \<Rightarrow> string option outcome) \<Rightarrow> string list \<Rightarrow> string outcome" where
  "replacer_loop round [] = ok ''null''"
| "replacer_loop round (name # names) =
     (case round name of
        None \<Rightarrow> None
      | Some (Inl e) \<Rightarrow> Some (Inl e)
      | Some (Inr None) \<Rightarrow> replacer_loop round names
      | Some (Inr (Some r)) \<Rightarrow> ok r)"

definition replacer ::
  "(string \<Rightarrow> bool \<Rightarrow> string outcome) \<Rightarrow> pyval \<Rightarrow> bool \<Rightarrow> string \<Rightarrow> string outcome"
where
  "replacer subst toml_data quotes group1 =
     (let var_names = map strip (split_on CHR '','' group1) in
      replacer_loop (replacer_round subst toml_data quotes (last var_names)) var_names)"

text \<open>
  \<^verbatim>\<open>substitute_variables(text, toml_data, recursive, quotes)\<close>. The fuel bounds the depth of
  the calls nested through \<^verbatim>\<open>replacer\<close>; without fuel there is no result.
\<close>

primrec substitute_variables :: "nat \<Rightarrow> string \<Rightarrow> pyval \<Rightarrow> bool \<Rightarrow> bool \<Rightarrow> string outcome" where
  "substitute_variables 0 text toml_data recursive quotes = None"
| "substitute_variables (Suc fuel) text toml_data recursive quotes =
     re_sub (if recursive then REC_PATTERN else FILE_PATTERN)
       (replacer (\<lambda>t q. substitute_variables fuel t toml_data True q) toml_data quotes) text"

section \<open>Python container operations\<close>

text \<open>
  The override engine applies \<^verbatim>\<open>key in val\<close>, \<^verbatim>\<open>val[key]\<close>, \<^verbatim>\<open>val[key] = x\<close>,
  \<^verbatim>\<open>del val[key]\<close> and \<^verbatim>\<open>len(val)\<close> to whatever value it has reached, with a key that
  \<^verbatim>\<open>parse_full_key\<close> made a string or an integer. Each operation is modelled for every type
  of value, with the exception Python raises where the type does not support it.
\<close>

fun is_infix :: "string \<Rightarrow> string \<Rightarrow> bool" where
  "is_infix t [] = (t = [])"
| "is_infix t (c # cs) = (startswith (c # cs) t \<or> is_infix t cs)"

text \<open>\<^verbatim>\<open>element == key\<close> for a list element; \<^verbatim>\<open>True == 1\<close> and \<^verbatim>\<open>False == 0\<close> in Python.\<close>

fun py_eq_key :: "pyval \<Rightarrow> dkey \<Rightarrow> bool" where
  "py_eq_key (PStr s) (KStr t) = (s = t)"
| "py_eq_key (PInt i) (KInt j) = (i = j)"
| "py_eq_key (PBool b) (KInt j) = ((if b then 1 else 0) = j)"
| "py_eq_key _ _ = False"

definition py_in :: "dkey \<Rightarrow> pyval \<Rightarrow> bool outcome" where
  "py_in k val =
     (case val of
        PDict kvs \<Rightarrow> ok (k \<in> set (map fst kvs))
      | PList xs \<Rightarrow> ok (list_ex (\<lambda>x. py_eq_key x k) xs)
      | PStr s \<Rightarrow> (case k of KStr t \<Rightarrow> ok (is_infix t s) | KInt i \<Rightarrow> raise TypeError)
      | _ \<Rightarrow> raise TypeError)"

text \<open>A list index as Python reads it: a negative index counts from the end.\<close>

definition list_index :: "'a list \<Rightarrow> int \<Rightarrow> nat option" where
  "list_index xs i =
     (if 0 \<le> i \<and> i < int (length xs) then Some (nat i)
      else if i < 0 \<and> - int (length xs) \<le> i then Some (nat (int (length xs) + i))
      else None)"

definition py_getitem :: "pyval \<Rightarrow> dkey \<Rightarrow> pyval outcome" where
  "py_getitem val k =
     (case val of
        PDict kvs \<Rightarrow> (case map_of kvs k of Some v \<Rightarrow> ok v | None \<Rightarrow> raise KeyError)
      | PList xs \<Rightarrow>
          (case k of
             KInt i \<Rightarrow> (case list_index xs i of Some j \<Rightarrow> ok (xs ! j) | None \<Rightarrow> raise IndexError)
           | KStr t \<Rightarrow> raise TypeError)
      | PStr s \<Rightarrow>
          (case k of
             KInt i \<Rightarrow> (case list_index s i of Some j \<Rightarrow> ok (PStr [s ! j]) | None \<Rightarrow> raise IndexError)
           | KStr t \<Rightarrow> raise TypeError)
      | _ \<Rightarrow> raise TypeError)"

text \<open>\<^verbatim>\<open>d[k] = v\<close> on a dictionary: an existing key keeps its place, a new key goes last.\<close>

fun dict_set :: "('k \<times> 'v) list \<Rightarrow> 'k \<Rightarrow> 'v \<Rightarrow> ('k \<times> 'v) list" where
  "dict_set [] k v = [(k, v)]"
| "dict_set ((k', v') # kvs) k v = (if k' = k then (k, v) # kvs else (k', v') # dict_set kvs k v)"

definition py_setitem :: "pyval \<Rightarrow> dkey \<Rightarrow> pyval \<Rightarrow> pyval outcome" where
  "py_setitem val k v =
     (case val of
        PDict kvs \<Rightarrow> ok (PDict (dict_set kvs k v))
      | PList xs \<Rightarrow>
          (case k of
             KInt i \<Rightarrow> (case list_index xs i of Some j \<Rightarrow> ok (PList (xs[j := v])) | None \<Rightarrow> raise IndexError)
           | KStr t \<Rightarrow> raise TypeError)
      | _ \<Rightarrow> raise TypeError)"

definition py_delitem :: "pyval \<Rightarrow> dkey \<Rightarrow> pyval outcome" where
  "py_delitem val k =
     (case val of
        PDict kvs \<Rightarrow>
          (if k \<in> set (map fst kvs) then ok (PDict (filter (\<lambda>kv. fst kv \<noteq> k) kvs))
           else raise KeyError)
      | PList xs \<Rightarrow>
          (case k of
             KInt i \<Rightarrow>
               (case list_index xs i of
                  Some j \<Rightarrow> ok (PList (take j xs @ drop (Suc j) xs))
                | None \<Rightarrow> raise IndexError)
           | KStr t \<Rightarrow> raise TypeError)
      | _ \<Rightarrow> raise TypeError)"


text \<open>
  The code walks into \<^verbatim>\<open>val[key]\<close> and mutates that object in place. In the tree model the
  mutated child is written back into its parent; Python does nothing at this point, so the
  operation never raises, and a parent that is not a list or a dictionary (whose child
  cannot have been mutated) is left as it is.
\<close>

definition store_back :: "pyval \<Rightarrow> dkey \<Rightarrow> pyval \<Rightarrow> pyval" where
  "store_back val k child =
     (case val of
        PDict kvs \<Rightarrow> PDict (dict_set kvs k child)
      | PList xs \<Rightarrow>
          (case k of
             KInt i \<Rightarrow> (case list_index xs i of Some j \<Rightarrow> PList (xs[j := child]) | None \<Rightarrow> val)
           | KStr t \<Rightarrow> val)
      | _ \<Rightarrow> val)"

definition is_container :: "pyval \<Rightarrow> bool" where
  "is_container v = (case v of PList xs \<Rightarrow> True | PDict kvs \<Rightarrow> True | _ \<Rightarrow> False)"

text \<open>Iteration \<^verbatim>\<open>for x in val\<close>: the items of a list, the characters of a string, the keys
  of a dictionary.\<close>

definition key_value :: "dkey \<Rightarrow> pyval" where
  "key_value k = (case k of KStr s \<Rightarrow> PStr s | KInt i \<Rightarrow> PInt i)"

definition py_iter :: "pyval \<Rightarrow> pyval list outcome" where
  "py_iter val =
     (case val of
        PList xs \<Rightarrow> ok xs
      | PStr s \<Rightarrow> ok (map (\<lambda>c. PStr [c]) s)
      | PDict kvs \<Rightarrow> ok (map (\<lambda>kv. key_value (fst kv)) kvs)
      | _ \<Rightarrow> raise TypeError)"

text \<open>A loop \<^verbatim>\<open>for x in xs\<close> whose body updates a state and may raise.\<close>

fun for_each :: "('a \<Rightarrow> 's \<Rightarrow> 's outcome) \<Rightarrow> 'a list \<Rightarrow> 's \<Rightarrow> 's outcome" where
  "for_each body [] st = ok st"
| "for_each body (x # xs) st =
     (case body x st of
        None \<Rightarrow> None
      | Some (Inl e) \<Rightarrow> Some (Inl e)
      | Some (Inr st') \<Rightarrow> for_each body xs st')"

section \<open>Override Engine: \<^verbatim>\<open>parse_full_key\<close> and the deletion list\<close>

text \<open>
  \<^verbatim>\<open>str.isdigit\<close> below code point 256 holds of the ASCII digits and of the superscripts
  one, two and three (185, 178, 179); \<^verbatim>\<open>int\<close> raises \<^verbatim>\<open>ValueError\<close> on the superscripts.
\<close>

definition ascii_digit :: "char \<Rightarrow> bool" where
  "ascii_digit c = (48 \<le> code c \<and> code c \<le> 57)"

definition isdigit :: "string \<Rightarrow> bool" where
  "isdigit s = (s \<noteq> [] \<and> list_all (\<lambda>c. ascii_digit c \<or> code c = 178 \<or> code c = 179 \<or> code c = 185) s)"

definition int_of_digits :: "string \<Rightarrow> int" where
  "int_of_digits s = foldl (\<lambda>a c. 10 * a + int (code c - 48)) 0 s"

text \<open>
  The inner loop \<^verbatim>\<open>while not part.endswith(']'): i += 1; part += '.' + parts[i]\<close>;
  \<open>None\<close> is the \<^verbatim>\<open>IndexError\<close> of \<^verbatim>\<open>parts[i]\<close> past the end.
\<close>

fun close_bracket :: "string \<Rightarrow> string list \<Rightarrow> (string \<times> string list) option" where
  "close_bracket part rest =
     (if endswith part '']'' then Some (part, rest)
      else (case rest of
              [] \<Rightarrow> None
            | p # ps \<Rightarrow> close_bracket (part @ ''.'' @ p) ps))"

declare close_bracket.simps [simp del]

function parse_parts :: "string list \<Rightarrow> error + dkey list" where
  "parse_parts [] = Inr []"
| "parse_parts (part # rest) =
     (if startswith part ''['' then
        (case close_bracket part rest of
           None \<Rightarrow> Inl IndexError
         | Some (p, rest') \<Rightarrow>
             (case parse_parts rest' of
                Inl e \<Rightarrow> Inl e
              | Inr keys \<Rightarrow> Inr (KStr (butlast (tl p)) # keys)))
      else if isdigit part then
        (if list_all ascii_digit part then
           (case parse_parts rest of
              Inl e \<Rightarrow> Inl e
            | Inr keys \<Rightarrow> Inr (KInt (int_of_digits part) # keys))
         else Inl ValueError)
      else
        (case parse_parts rest of
           Inl e \<Rightarrow> Inl e
         | Inr keys \<Rightarrow> Inr (KStr part # keys)))"
  by pat_completeness auto
termination
proof (relation "measure length")
  show "wf (measure length)" by simp
next
  fix part :: string and rest :: "string list" and x p rest'
  assume "close_bracket part rest = Some x" and "(p, rest') = x"
  then have c: "close_bracket part rest = Some (p, rest')" by simp
  have "length r \<le> length ps" if "close_bracket q ps = Some (s, r)" for q ps s r
    using that
  proof (induction q ps rule: close_bracket.induct)
    case (1 q ps)
    then show ?case
      by (subst (asm) (2) close_bracket.simps) (auto split: if_splits list.splits)
  qed
  from this [OF c] show "(rest', part # rest) \<in> measure length" by simp
qed simp_all

definition parse_full_key :: "string \<Rightarrow> error + dkey list" where
  "parse_full_key full_key = parse_parts (split_on CHR ''.'' full_key)"

text \<open>
  Lines 123 to 129 of \<^verbatim>\<open>process_json_template\<close>, for one deletion path:
  \<^verbatim>\<open>val = theme\<close>, then for each key but the last
  \<^verbatim>\<open>if key not in val: continue\<close> (marked \<^verbatim>\<open># TODO: FIX THIS\<close> in the source) and
  \<^verbatim>\<open>val = val[key]\<close>, and at the end \<^verbatim>\<open>if keys[-1] in val: del val[keys[-1]]\<close>.
  The function returns \<open>val\<close> as the walk leaves it.
\<close>

fun delete_walk :: "pyval \<Rightarrow> dkey list \<Rightarrow> pyval outcome" where
  "delete_walk val [] = ok val"
| "delete_walk val [k] =
     bind (py_in k val) (\<lambda>found. if found then py_delitem val k else ok val)"
| "delete_walk val (k # k' # ks) =
     bind (py_in k val) (\<lambda>found.
       if \<not> found then delete_walk val (k' # ks)
       else bind (py_getitem val k) (\<lambda>child.
            bind (delete_walk child (k' # ks)) (\<lambda>child'.
            ok (store_back val k child'))))"

definition delete_key :: "pyval \<Rightarrow> pyval \<Rightarrow> pyval outcome" where
  "delete_key full_key theme =
     (case full_key of
        PStr s \<Rightarrow> (case parse_full_key s of Inl e \<Rightarrow> raise e | Inr keys \<Rightarrow> delete_walk theme keys)
      | _ \<Rightarrow> raise AttributeError)"

text \<open>
  Lines 120 to 129: the guard
  \<^verbatim>\<open>'deletions' in toml_data and 'keys' in toml_data['deletions'] and toml_data['deletions']['keys']\<close>
  and the loop over the deletion paths.
\<close>

definition apply_deletions :: "pyval \<Rightarrow> pyval \<Rightarrow> pyval outcome" where
  "apply_deletions theme toml_data =
     bind (py_in (KStr ''deletions'') toml_data) (\<lambda>has_deletions.
       if \<not> has_deletions then ok theme
       else bind (py_getitem toml_data (KStr ''deletions'')) (\<lambda>deletions.
            bind (py_in (KStr ''keys'') deletions) (\<lambda>has_keys.
              if \<not> has_keys then ok theme
              else bind (py_getitem deletions (KStr ''keys'')) (\<lambda>keys.
                   if \<not> truthy keys then ok theme
                   else bind (py_iter keys) (\<lambda>full_keys. for_each delete_key full_keys theme)))))"

section \<open>Override Engine: \<^verbatim>\<open>apply_direct_overrides\<close>\<close>

text \<open>
  An override value that is a string containing \<^verbatim>\<open>$\<close> is replaced by
  \<^verbatim>\<open>resolve_variable(override_value[1:], toml_data)\<close> (line 219).
\<close>

definition resolve_direct :: "pyval \<Rightarrow> pyval \<Rightarrow> pyval outcome" where
  "resolve_direct override_value toml_data =
     (case override_value of
        PStr s \<Rightarrow> if CHR ''$'' \<in> set s then resolve_variable (tl s) toml_data False else ok override_value
      | _ \<Rightarrow> ok override_value)"

text \<open>
  \<^verbatim>\<open>next and next.isdigit()\<close>, where \<open>next\<close> is the following path segment or \<^verbatim>\<open>None\<close>:
  an integer segment other than 0 has no method \<^verbatim>\<open>isdigit\<close>. Line 238 calls
  \<^verbatim>\<open>next.isdigit()\<close> without the guard, so there the integer 0 raises too.
\<close>

definition next_isdigit_guarded :: "dkey option \<Rightarrow> bool outcome" where
  "next_isdigit_guarded nxt =
     (case nxt of
        None \<Rightarrow> ok False
      | Some (KStr n) \<Rightarrow> ok (isdigit n)
      | Some (KInt i) \<Rightarrow> if i = 0 then ok False else raise AttributeError)"

definition next_isdigit :: "dkey option \<Rightarrow> bool outcome" where
  "next_isdigit nxt =
     (case nxt of
        None \<Rightarrow> raise AttributeError
      | Some (KStr n) \<Rightarrow> ok (isdigit n)
      | Some (KInt i) \<Rightarrow> raise AttributeError)"

text \<open>
  Lines 243 to 252, the loop \<^verbatim>\<open>while len(current) <= part\<close> that grows a list: it appends
  an empty list when the next segment is a digit string, an empty dictionary when the list
  has reached index \<open>part\<close>, and the override value itself before that.
\<close>

function grow_list :: "pyval list \<Rightarrow> int \<Rightarrow> bool \<Rightarrow> pyval \<Rightarrow> pyval list" where
  "grow_list current part next_digit override_value =
     (if int (length current) \<le> part
      then grow_list
             (current @ [if next_digit then PList []
                         else if part = int (length current) then PDict []
                         else override_value])
             part next_digit override_value
      else current)"
  by pat_completeness auto
termination
  by (relation "measure (\<lambda>(current, part, nd, ov). nat (part + 1 - int (length current)))") auto

declare grow_list.simps [simp del]

text \<open>Lines 234 to 252: what the loop body does to \<open>current\<close> before it reads \<^verbatim>\<open>current[part]\<close>.\<close>

definition make_room :: "pyval \<Rightarrow> dkey \<Rightarrow> dkey option \<Rightarrow> bool \<Rightarrow> pyval \<Rightarrow> pyval outcome" where
  "make_room current part nxt is_last override_value =
     (case current of
        PDict kvs \<Rightarrow>
          if part \<in> set (map fst kvs) then ok current
          else if is_last then ok (PDict (kvs @ [(part, PNone)]))
          else bind (next_isdigit nxt) (\<lambda>d.
                 ok (PDict (kvs @ [(part, if d then PList [] else PDict [])])))
      | PList xs \<Rightarrow>
          (case part of
             KStr t \<Rightarrow> raise TypeError
           | KInt p \<Rightarrow>
               if int (length xs) \<le> p
               then bind (next_isdigit_guarded nxt) (\<lambda>d. ok (PList (grow_list xs p d override_value)))
               else ok current)
      | _ \<Rightarrow> ok current)"

text \<open>
  Lines 259 to 272, after the loop: \<^verbatim>\<open>False\<close> has become \<^verbatim>\<open>None\<close>, and the value is
  stored under the last segment visited, in the container the walk stopped at.
\<close>

definition key_truthy :: "dkey \<Rightarrow> bool" where
  "key_truthy k = (case k of KStr s \<Rightarrow> s \<noteq> [] | KInt i \<Rightarrow> i \<noteq> 0)"

definition final_assign :: "pyval \<Rightarrow> dkey \<Rightarrow> pyval \<Rightarrow> pyval outcome" where
  "final_assign current part override_value =
     bind (if key_truthy part then py_in part current else ok False) (\<lambda>found.
       if found then py_setitem current part override_value
       else (case (current, part) of
               (PList xs, KInt p) \<Rightarrow>
                 if p > int (length xs) then ok (PList (xs @ [override_value]))
                 else py_setitem current part override_value
             | _ \<Rightarrow> ok current))"

definition false_to_none :: "pyval \<Rightarrow> pyval" where
  "false_to_none v = (if v = PBool False then PNone else v)"

text \<open>
  Lines 230 to 272 for the segments \<open>part # rest\<close> still to visit, starting in \<open>current\<close>.
  The result is \<open>current\<close> after every mutation made in it and below it.
\<close>

fun direct_walk :: "pyval \<Rightarrow> pyval \<Rightarrow> dkey \<Rightarrow> dkey list \<Rightarrow> pyval outcome" where
  "direct_walk override_value current part rest =
     bind (make_room current part (case rest of [] \<Rightarrow> None | p # ps \<Rightarrow> Some p) (rest = [])
             override_value) (\<lambda>current.
     bind (py_getitem current part) (\<lambda>nxt.
       if is_container nxt then
         bind (case rest of
                 [] \<Rightarrow> final_assign nxt part (false_to_none override_value)
               | p # ps \<Rightarrow> direct_walk override_value nxt p ps) (\<lambda>nxt'.
         ok (store_back current part nxt'))
       else final_assign current part (false_to_none override_value)))"

declare direct_walk.simps [simp del]

text \<open>
  The body of the loop over \<^verbatim>\<open>overrides.items()\<close>, and the loop. Python stores the
  override value itself in the theme, where the model stores a copy of it; the two agree
  as long as no later override path enters a list or a dictionary that came from the
  bindings and changes it there.
\<close>

definition apply_direct_override :: "pyval \<Rightarrow> string \<times> pyval \<Rightarrow> pyval \<Rightarrow> pyval outcome" where
  "apply_direct_override toml_data entry theme =
     (case entry of (override_key, override_value) \<Rightarrow>
        bind (resolve_direct override_value toml_data) (\<lambda>override_value.
          if CHR ''.'' \<notin> set override_key then py_setitem theme (KStr override_key) override_value
          else (case parse_full_key override_key of
                  Inl e \<Rightarrow> raise e
                | Inr [] \<Rightarrow> ok theme
                | Inr (part # rest) \<Rightarrow> direct_walk override_value theme part rest)))"

definition apply_direct_overrides :: "pyval \<Rightarrow> pyval \<Rightarrow> (string \<times> pyval) list \<Rightarrow> pyval outcome" where
  "apply_direct_overrides theme toml_data overrides =
     for_each (apply_direct_override toml_data) overrides theme"

section \<open>Override Engine: wildcard and regex overrides\<close>




















section \<open>A model of \<^verbatim>\<open>re.match\<close> on simple patterns\<close>


datatype atom = Lit char | AnyChar | WordChar

datatype item = Once atom | Star atom







section \<open>Reverse Extractor: \<^verbatim>\<open>get_delete_keys\<close>\<close>



section \<open>Color Palette Factorer: \<^verbatim>\<open>handle_colors\<close>\<close>

text \<open>
  \<^verbatim>\<open>is_hex_color\<close> uses \<^verbatim>\<open>re.match\<close>, so a string is a hex color as soon as it starts with
  \<^verbatim>\<open>#\<close> and eight, six or three hex digits, whatever follows. \<^verbatim>\<open>get_base_color\<close> asserts
  the length, and raises \<^verbatim>\<open>AssertionError\<close> on \<^verbatim>\<open>#FFFF\<close>.
\<close>

definition hex_digit :: "char \<Rightarrow> bool" where
  "hex_digit c = ((48 \<le> code c \<and> code c \<le> 57) \<or> (65 \<le> code c \<and> code c \<le> 70)
     \<or> (97 \<le> code c \<and> code c \<le> 102))"

definition hex_run :: "nat \<Rightarrow> string \<Rightarrow> bool" where
  "hex_run n s = (n \<le> length s \<and> list_all hex_digit (take n s))"

definition is_hex_color :: "pyval \<Rightarrow> bool" where
  "is_hex_color color =
     (case color of
        PStr s \<Rightarrow> startswith s ''#'' \<and> (hex_run 8 (tl s) \<or> hex_run 6 (tl s) \<or> hex_run 3 (tl s))
      | _ \<Rightarrow> False)"

text \<open>
  \<^verbatim>\<open>str.upper\<close> below code point 256. The sharp s becomes \<^verbatim>\<open>SS\<close>; the micro sign and the
  y with diaeresis have their capitals above 255 and are left as they are here.
\<close>

definition upper_char :: "char \<Rightarrow> string" where
  "upper_char c =
     (if (97 \<le> code c \<and> code c \<le> 122) \<or> (224 \<le> code c \<and> code c \<le> 246)
         \<or> (248 \<le> code c \<and> code c \<le> 254)
      then [char_of (code c - 32)]
      else if code c = 223 then ''SS''
      else [c])"

definition py_upper :: "string \<Rightarrow> string" where
  "py_upper s = concat (map upper_char s)"

definition get_base_color :: "pyval \<Rightarrow> string outcome" where
  "get_base_color hex =
     (case hex of
        PStr s \<Rightarrow>
          if \<not> startswith s ''#'' then raise AssertionError
          else if length s \<notin> {4, 7, 9} then raise AssertionError
          else (let u = py_upper s
                in if length u = 4 then ok (take 7 (''#'' @ [u ! 1, u ! 1, u ! 2, u ! 2, u ! 3, u ! 3]))
                   else ok (take 7 u))
      | _ \<Rightarrow> raise AttributeError)"

definition get_alpha :: "pyval \<Rightarrow> string option outcome" where
  "get_alpha hex =
     (if \<not> is_hex_color hex then raise AssertionError
      else (case hex of
              PStr s \<Rightarrow> if length s \<noteq> 9 then ok None else ok (Some (drop 7 s))
            | _ \<Rightarrow> raise AssertionError))"

text \<open>
  \<^verbatim>\<open>colors.update({color: count})\<close> on the \<^verbatim>\<open>Counter\<close>: a new color goes last, a known one
  keeps its place; the counter lists the colors in first-seen order.
\<close>

fun counter_add :: "(string \<times> int) list \<Rightarrow> string \<Rightarrow> int \<Rightarrow> (string \<times> int) list" where
  "counter_add [] color n = [(color, n)]"
| "counter_add ((c, m) # cs) color n =
     (if c = color then (c, m + n) # cs else (c, m) # counter_add cs color n)"

text \<open>Lines 550 to 554: one histogram entry; lines 556 to 559 and 566 to 569: one override.\<close>

definition count_entry :: "pyval \<times> int \<Rightarrow> (string \<times> int) list \<Rightarrow> (string \<times> int) list outcome" where
  "count_entry entry colors =
     (case entry of (color, n) \<Rightarrow>
        if is_hex_color color then bind (get_base_color color) (\<lambda>base. ok (counter_add colors base n))
        else ok colors)"

definition count_histograms ::
  "(string \<times> (pyval \<times> int) list) list \<Rightarrow> (string \<times> int) list \<Rightarrow> (string \<times> int) list outcome"
where
  "count_histograms variables colors =
     for_each (\<lambda>var cs. for_each count_entry (snd var) cs) variables colors"

definition count_override :: "string \<times> pyval \<Rightarrow> (string \<times> int) list \<Rightarrow> (string \<times> int) list outcome" where
  "count_override entry colors =
     (case entry of (key, v) \<Rightarrow>
        if truthy v \<and> is_hex_color v then bind (get_base_color v) (\<lambda>base. ok (counter_add colors base 1))
        else ok colors)"

definition count_overrides ::
  "(string \<times> pyval) list \<Rightarrow> (string \<times> int) list \<Rightarrow> (string \<times> int) list outcome"
where
  "count_overrides overrides colors = for_each count_override overrides colors"

text \<open>
  \<^verbatim>\<open>max(value, key=value.get)\<close>: the first key of the histogram with the largest count;
  \<^verbatim>\<open>ValueError\<close> on an empty histogram.
\<close>

fun max_by :: "('a \<Rightarrow> int) \<Rightarrow> 'a \<Rightarrow> 'a list \<Rightarrow> 'a" where
  "max_by f best [] = best"
| "max_by f best (x # xs) = max_by f (if f x > f best then x else best) xs"

definition representative :: "(pyval \<times> int) list \<Rightarrow> pyval outcome" where
  "representative histogram =
     (case histogram of
        [] \<Rightarrow> raise ValueError
      | e # es \<Rightarrow> ok (fst (max_by snd e es)))"

text \<open>Python's \<^verbatim>\<open>==\<close> on the values of a theme; a dictionary compares without order.\<close>

fun py_eq :: "pyval \<Rightarrow> pyval \<Rightarrow> bool" where
  "py_eq PNone PNone = True"
| "py_eq (PBool a) (PBool b) = (a = b)"
| "py_eq (PBool a) (PInt j) = ((if a then 1 else 0) = j)"
| "py_eq (PInt i) (PBool b) = (i = (if b then 1 else 0))"
| "py_eq (PInt i) (PInt j) = (i = j)"
| "py_eq (PStr s) (PStr t) = (s = t)"
| "py_eq (PList xs) (PList ys) = list_all2 py_eq xs ys"
| "py_eq (PDict a) (PDict b) =
     (set (map fst a) = set (map fst b) \<and>
      list_all (\<lambda>kv. case map_of b (fst kv) of Some w \<Rightarrow> py_eq (snd kv) w | None \<Rightarrow> False) a)"
| "py_eq _ _ = False"

text \<open>
  \<^verbatim>\<open>listify(value)\<close> is \<^verbatim>\<open>"^SUBLIST" + str(value).replace(" ", "").replace("'", "")\<close>. Python's
  \<^verbatim>\<open>str\<close> of a list is the parameter \<open>py_str\<close>.
\<close>

definition listify :: "(pyval \<Rightarrow> string) \<Rightarrow> pyval \<Rightarrow> string" where
  "listify py_str v = ''^SUBLIST'' @ str_replace [CHR 0x27] [] (str_replace '' '' [] (py_str v))"

text \<open>
  The f-string \<^verbatim>\<open>color + f"{".." if color.startswith("$") else ""}{alpha}"\<close> of lines 591
  and 619.
\<close>

definition with_alpha :: "string \<Rightarrow> string \<Rightarrow> string" where
  "with_alpha color alpha = color @ (if startswith color ''$'' then ''..'' else []) @ alpha"

text \<open>
  \<^verbatim>\<open>cleanup_variables\<close>, lines 606 to 624, for one entry \<open>(key, value)\<close> of the map of a
  variable: the state is the overrides and \<^verbatim>\<open>base_color_groups\<close>, a dictionary from a
  color to the entries that have it, in first-seen order.
\<close>

fun group_add :: "(pyval \<times> (string \<times> pyval) list) list \<Rightarrow> pyval \<Rightarrow> string \<times> pyval
    \<Rightarrow> (pyval \<times> (string \<times> pyval) list) list" where
  "group_add [] color e = [(color, [e])]"
| "group_add ((c, es) # gs) color e =
     (if py_eq c color then (c, es @ [e]) # gs else (c, es) # group_add gs color e)"

definition base_or_self :: "pyval \<Rightarrow> pyval outcome" where
  "base_or_self v = (if is_hex_color v then bind (get_base_color v) (\<lambda>b. ok (PStr b)) else ok v)"

definition cleanup_entry ::
  "(pyval \<Rightarrow> string) \<Rightarrow> (string \<times> pyval) list \<Rightarrow> string option \<Rightarrow> string \<times> pyval
   \<Rightarrow> (string \<times> pyval) list \<times> (pyval \<times> (string \<times> pyval) list) list
   \<Rightarrow> ((string \<times> pyval) list \<times> (pyval \<times> (string \<times> pyval) list) list) outcome"
where
  "cleanup_entry py_str variables var_name entry st =
     (case (entry, st) of ((key, v), (overrides, groups)) \<Rightarrow>
        bind (case v of
                PList xs \<Rightarrow>
                  (case (case var_name of None \<Rightarrow> None | Some n \<Rightarrow> map_of variables n) of
                     None \<Rightarrow> raise KeyError
                   | Some rep \<Rightarrow>
                       if py_eq (PStr (listify py_str v)) rep then ok (PStr (listify py_str v))
                       else raise ValueError)
              | _ \<Rightarrow> ok v) (\<lambda>v.
        bind (base_or_self v) (\<lambda>color.
        bind (base_or_self (case (case var_name of None \<Rightarrow> None | Some n \<Rightarrow> map_of variables n) of
                              None \<Rightarrow> PNone | Some rep \<Rightarrow> rep)) (\<lambda>templ_color.
          if \<not> py_eq color templ_color then
            bind (if is_hex_color color then get_alpha v else ok None) (\<lambda>alpha.
              case alpha of
                None \<Rightarrow> ok (dict_set overrides key color, groups)
              | Some a \<Rightarrow>
                  if a = [] then ok (dict_set overrides key color, groups)
                  else (case color of
                          PStr c \<Rightarrow> ok (dict_set overrides key (PStr (with_alpha c a)), groups)
                        | _ \<Rightarrow> raise TypeError))
          else (case color of
                  PList xs \<Rightarrow> raise TypeError
                | PDict kvs \<Rightarrow> raise TypeError
                | _ \<Rightarrow> ok (overrides, group_add groups color (key, v)))))))"

text \<open>
  Lines 626 to 637 for one group: when its entries carry more than one alpha value, every
  entry whose alpha is not the most common one becomes an override and is removed from the
  map of the variable. The state is the overrides and that map.
\<close>

definition demote_entry ::
  "string option \<Rightarrow> string \<times> pyval \<Rightarrow> (string \<times> pyval) list \<times> (string \<times> pyval) list
   \<Rightarrow> ((string \<times> pyval) list \<times> (string \<times> pyval) list) outcome"
where
  "demote_entry most_common_alpha entry st =
     (case (entry, st) of ((key, v), (overrides, vmap)) \<Rightarrow>
        bind (get_alpha v) (\<lambda>alpha.
          if alpha \<noteq> most_common_alpha then
            (if key \<in> set (map fst vmap)
             then ok (dict_set overrides key v, filter (\<lambda>kv. fst kv \<noteq> key) vmap)
             else raise KeyError)
          else ok (overrides, vmap)))"

definition cleanup_group ::
  "pyval \<times> (string \<times> pyval) list \<Rightarrow> (string \<times> pyval) list \<times> (string \<times> pyval) list
   \<Rightarrow> ((string \<times> pyval) list \<times> (string \<times> pyval) list) outcome"
where
  "cleanup_group g st =
     (case g of (base_color, color_group) \<Rightarrow>
        if length color_group > 1 then
          bind (map_outcome (\<lambda>e. get_alpha (snd e)) (filter (\<lambda>e. is_hex_color (snd e)) color_group))
            (\<lambda>alphas.
               if length (remdups alphas) > 1
               then for_each
                      (demote_entry (max_by (\<lambda>x. int (count_list alphas x)) (hd alphas) (tl alphas)))
                      color_group st
               else ok st)
        else ok st)"

text \<open>
  \<^verbatim>\<open>cleanup_variables(var_map, variables, overrides)\<close>: the body for one variable, and the
  loop. The state is the overrides and the variable map rebuilt so far; both are mutated
  in place by the source, which returns the overrides.
\<close>

definition cleanup_variable ::
  "(pyval \<Rightarrow> string) \<Rightarrow> (string \<times> pyval) list \<Rightarrow> string option \<times> (string \<times> pyval) list
   \<Rightarrow> (string \<times> pyval) list \<times> (string option \<times> (string \<times> pyval) list) list
   \<Rightarrow> ((string \<times> pyval) list \<times> (string option \<times> (string \<times> pyval) list) list) outcome"
where
  "cleanup_variable py_str variables var st =
     (case (var, st) of ((var_name, vmap), (overrides, done)) \<Rightarrow>
        bind (for_each (cleanup_entry py_str variables var_name) vmap (overrides, [])) (\<lambda>(overrides, groups).
        bind (for_each cleanup_group groups (overrides, vmap)) (\<lambda>(overrides, vmap').
        ok (overrides, done @ [(var_name, vmap')]))))"

definition cleanup_variables ::
  "(pyval \<Rightarrow> string) \<Rightarrow> (string option \<times> (string \<times> pyval) list) list \<Rightarrow> (string \<times> pyval) list
   \<Rightarrow> (string \<times> pyval) list
   \<Rightarrow> ((string \<times> pyval) list \<times> (string option \<times> (string \<times> pyval) list) list) outcome"
where
  "cleanup_variables py_str var_map variables overrides =
     for_each (cleanup_variable py_str variables) var_map (overrides, [])"

text \<open>
  Lines 547 to 569 of \<^verbatim>\<open>handle_colors\<close>: the counter \<open>colors\<close>, the representative value of
  each variable, and the overrides and the variable map after \<^verbatim>\<open>cleanup_variables\<close>. The
  overrides are counted before \<^verbatim>\<open>cleanup_variables\<close>, and all of them are counted again
  after it. \<open>color_counts\<close> is the counter alone, as it stands when the palette is built.
\<close>

definition count_phase ::
  "(pyval \<Rightarrow> string) \<Rightarrow> (string \<times> (pyval \<times> int) list) list \<Rightarrow> (string \<times> pyval) list
   \<Rightarrow> (string option \<times> (string \<times> pyval) list) list
   \<Rightarrow> ((string \<times> int) list \<times> (string \<times> pyval) list \<times> (string \<times> pyval) list
        \<times> (string option \<times> (string \<times> pyval) list) list) outcome"
where
  "count_phase py_str variables overrides var_map =
     bind (count_histograms variables []) (\<lambda>colors.
     bind (count_overrides overrides colors) (\<lambda>colors.
     bind (map_outcome (\<lambda>var. bind (representative (snd var)) (\<lambda>r. ok (fst var, r))) variables)
       (\<lambda>sorted_variables.
     bind (cleanup_variables py_str var_map sorted_variables overrides) (\<lambda>(overrides, var_map).
     bind (count_overrides overrides colors) (\<lambda>colors.
     ok (colors, sorted_variables, overrides, var_map))))))"

definition color_counts ::
  "(pyval \<Rightarrow> string) \<Rightarrow> (string \<times> (pyval \<times> int) list) list \<Rightarrow> (string \<times> pyval) list
   \<Rightarrow> (string option \<times> (string \<times> pyval) list) list \<Rightarrow> (string \<times> int) list outcome"
where
  "color_counts py_str variables overrides var_map =
     bind (count_phase py_str variables overrides var_map) (\<lambda>(colors, rest). ok colors)"

text \<open>
  Lines 573 and 574: the colors counted more than \<open>threshold\<close> times, in the order of
  \<^verbatim>\<open>sorted(..., key=lambda x: x[1], reverse=True)\<close> (a stable sort, so colors with equal
  counts keep the order of the counter), each with the name
  \<^verbatim>\<open>f"$colors.color{index + 1}"\<close>.
\<close>

definition palette_order :: "int \<Rightarrow> (string \<times> int) list \<Rightarrow> string list" where
  "palette_order threshold colors =
     map fst (sort_key (\<lambda>x. - snd x) (filter (\<lambda>x. snd x > threshold) colors))"

definition palette_name :: "nat \<Rightarrow> string" where
  "palette_name index = ''$colors.color'' @ str_nat (index + 1)"

definition color_map :: "int \<Rightarrow> (string \<times> int) list \<Rightarrow> (string \<times> string) list" where
  "color_map threshold colors =
     (let order = palette_order threshold colors
      in zip order (map palette_name [0..<length order]))"

text \<open>Line 577 for one variable and lines 586 to 593 for one override.\<close>

definition palette_lookup :: "(string \<times> string) list \<Rightarrow> pyval \<Rightarrow> pyval outcome" where
  "palette_lookup cmap v =
     bind (get_base_color v) (\<lambda>base.
       case map_of cmap base of Some name \<Rightarrow> ok (PStr name) | None \<Rightarrow> ok v)"

definition rewrite_variable :: "(string \<times> string) list \<Rightarrow> string \<times> pyval \<Rightarrow> (string \<times> pyval) outcome" where
  "rewrite_variable cmap var =
     (case var of (var_name, v) \<Rightarrow>
        if is_hex_color v then bind (palette_lookup cmap v) (\<lambda>c. ok (var_name, c))
        else ok (var_name, v))"

definition rewrite_override ::
  "(string \<times> string) list \<Rightarrow> string \<times> pyval \<Rightarrow> (string \<times> pyval) list \<Rightarrow> (string \<times> pyval) list outcome"
where
  "rewrite_override cmap entry sorted_overrides =
     (case entry of (key, v) \<Rightarrow>
        if truthy v \<and> is_hex_color v then
          bind (palette_lookup cmap v) (\<lambda>color.
          bind (get_alpha v) (\<lambda>alpha.
            case color of
              PStr c \<Rightarrow>
                (let can_add_alpha =
                       ((c \<noteq> [] \<and> startswith c ''$'' \<and> \<not> is_infix ''..'' c)
                        \<or> (c \<noteq> [] \<and> \<not> startswith c ''$'' \<and> length c < 9))
                 in case alpha of
                      Some a \<Rightarrow>
                        ok (dict_set sorted_overrides key
                              (PStr (if a \<noteq> [] \<and> can_add_alpha then with_alpha c a else c)))
                    | None \<Rightarrow> ok (dict_set sorted_overrides key color))
            | _ \<Rightarrow> raise AttributeError))
        else ok (dict_set sorted_overrides key v))"

text \<open>
  \<^verbatim>\<open>handle_colors(variables, overrides, var_map, threshold)\<close>. It returns the palette, the
  rewritten variables and the rewritten overrides; the fourth component is \<open>var_map\<close> as
  \<^verbatim>\<open>cleanup_variables\<close> leaves it.
\<close>

definition handle_colors ::
  "(pyval \<Rightarrow> string) \<Rightarrow> (string \<times> (pyval \<times> int) list) list \<Rightarrow> (string \<times> pyval) list
   \<Rightarrow> (string option \<times> (string \<times> pyval) list) list \<Rightarrow> int
   \<Rightarrow> ((string \<times> string) list \<times> (string \<times> pyval) list \<times> (string \<times> pyval) list
        \<times> (string option \<times> (string \<times> pyval) list) list) outcome"
where
  "handle_colors py_str variables overrides var_map threshold =
     bind (count_phase py_str variables overrides var_map)
       (\<lambda>(colors, sorted_variables, overrides, var_map).
     bind (map_outcome (rewrite_variable (color_map threshold colors)) sorted_variables)
       (\<lambda>sorted_variables.
     bind (for_each (rewrite_override (color_map threshold colors)) overrides [])
       (\<lambda>sorted_overrides.
     ok (color_map threshold colors, sorted_variables, sorted_overrides, var_map))))"

section \<open>Facts about the resolver and the materializer\<close>

lemma resolve_alpha_bound:
  assumes "dict_get toml_data (KStr ''a'') = Some (PStr ''#112233'')"
  shows "resolve_variable ''a..7f'' toml_data False = ok (PStr ''#1122337f'')"
proof -
  have a: "alpha_search ''a..7f'' = Some ''7f''" by code_simp
  have r: "str_replace ''..7f'' [] ''a..7f'' = ''a''" by code_simp
  have l: "lookup_path ''a'' toml_data = PStr ''#112233''"
    using assms by (simp add: lookup_path_def)
  have f: "follow_refs toml_data (PStr ''#112233'') = Some (PStr ''#112233'')"
    by (subst follow_refs.simps) (simp add: startswith_def)
  have n: "alpha_search ''#112233'' = None" by code_simp
  show ?thesis
    unfolding resolve_variable_def using a r l f n by simp
qed

lemma resolve_alpha_unbound:
  assumes "dict_get toml_data (KStr ''a'') = None"
  shows "resolve_variable ''a..7f'' toml_data False = ok PNone"
proof -
  have a: "alpha_search ''a..7f'' = Some ''7f''" by code_simp
  have r: "str_replace ''..7f'' [] ''a..7f'' = ''a''" by code_simp
  have l: "lookup_path ''a'' toml_data = PNone"
    using assms by (simp add: lookup_path_def)
  have f: "follow_refs toml_data PNone = Some PNone"
    by (subst follow_refs.simps) simp
  show ?thesis
    unfolding resolve_variable_def using a r l f by simp
qed

lemma re_sub_whole:
  assumes "match_at p (c # cs) = Some (g, [])"
  shows "re_sub p repl (c # cs) = bind (repl g) ok"
  using assms by (simp add: bind_def ok_def split: option.splits sum.splits)


lemma replacer_single:
  assumes "map strip (split_on CHR '','' g) = [name]"
  shows "replacer subst toml_data quotes g =
     replacer_loop (replacer_round subst toml_data quotes name) [name]"
  using assms by (simp add: replacer_def)

text \<open>
  Claim C2 (alpha-token round trip). Against every bindings table in which \<open>a\<close> is bound to
  the string \<^verbatim>\<open>#112233\<close>, the variable \<^verbatim>\<open>a..7f\<close> resolves to \<^verbatim>\<open>#1122337f\<close> and the
  template scalar \<^verbatim>\<open>"$a..7f"\<close> is materialized as the JSON string \<^verbatim>\<open>"#1122337f"\<close>. Against
  every table in which \<open>a\<close> is unbound, resolution returns \<^verbatim>\<open>None\<close> and the scalar is
  materialized as \<^verbatim>\<open>null\<close>: no partial string such as a bare \<^verbatim>\<open>7f\<close> is produced.
\<close>

theorem alpha_round_trip:
  \<open>(dict_get toml_data (KStr ''a'') = Some (PStr ''#112233'') \<longrightarrow>
      resolve_variable ''a..7f'' toml_data False = ok (PStr ''#1122337f'') \<and>
      substitute_variables (Suc fuel) ''"$a..7f"'' toml_data False True = ok ''"#1122337f"'') \<and>
    (dict_get toml_data (KStr ''a'') = None \<longrightarrow>
      resolve_variable ''a..7f'' toml_data False = ok PNone \<and>
      substitute_variables (Suc fuel) ''"$a..7f"'' toml_data False True = ok ''null'')\<close>
proof -
  have m: \<open>match_at FILE_PATTERN ''"$a..7f"'' = Some (''$a..7f'', [])\<close> by code_simp
  have s: "map strip (split_on CHR '','' ''$a..7f'') = [''$a..7f'']" by code_simp
  have j: \<open>json_dumps (PStr ''#1122337f'') = ''"#1122337f"''\<close> by code_simp
  have d: "CHR ''$'' \<notin> set ''#1122337f''" by simp
  have sub: "substitute_variables (Suc fuel) (CHR 0x22 # ''$a..7f'' @ [CHR 0x22]) toml_data False True =
      bind (replacer_loop (replacer_round (\<lambda>t q. substitute_variables fuel t toml_data True q)
        toml_data True ''$a..7f'') [''$a..7f'']) ok"
    using re_sub_whole [OF m] replacer_single [OF s] by simp
  show ?thesis
  proof (intro conjI impI)
    assume a: "dict_get toml_data (KStr ''a'') = Some (PStr ''#112233'')"
    show "resolve_variable ''a..7f'' toml_data False = ok (PStr ''#1122337f'')"
      by (rule resolve_alpha_bound [OF a])
    show \<open>substitute_variables (Suc fuel) ''"$a..7f"'' toml_data False True = ok ''"#1122337f"''\<close>
      using sub resolve_alpha_bound [OF a] j d
      by (simp add: replacer_round_def startswith_def bind_def ok_def)
  next
    assume a: "dict_get toml_data (KStr ''a'') = None"
    show "resolve_variable ''a..7f'' toml_data False = ok PNone"
      by (rule resolve_alpha_unbound [OF a])
    show \<open>substitute_variables (Suc fuel) ''"$a..7f"'' toml_data False True = ok ''null''\<close>
      using sub resolve_alpha_unbound [OF a]
      by (simp add: replacer_round_def startswith_def bind_def ok_def)
  qed
qed

theorem alpha_round_trip_witness:
  \<open>dict_get (PDict [(KStr ''a'', PStr ''#112233'')]) (KStr ''a'') = Some (PStr ''#112233'') \<and>
   substitute_variables 1 ''"$a..7f"'' (PDict [(KStr ''a'', PStr ''#112233'')]) False True
     = ok ''"#1122337f"'' \<and>
   dict_get (PDict [(KStr ''b'', PStr ''#112233'')]) (KStr ''a'') = None \<and>
   substitute_variables 1 ''"$a..7f"'' (PDict [(KStr ''b'', PStr ''#112233'')]) False True
     = ok ''null''\<close>
  using alpha_round_trip [of "PDict [(KStr ''a'', PStr ''#112233'')]" 0]
    alpha_round_trip [of "PDict [(KStr ''b'', PStr ''#112233'')]" 0]
  by (simp add: dict_get_def)

text \<open>
  Claim C1 (last resort of a fallback chain) does not hold of the code. With \<open>c\<close> bound to
  the string \<^verbatim>\<open>red\<close>, the path \<^verbatim>\<open>c.d\<close> does not resolve while \<^verbatim>\<open>c\<close> does, and yet the
  placeholders \<^verbatim>\<open>"$c.d"\<close> and \<^verbatim>\<open>"$x.y, $c.d"\<close> are materialized as \<^verbatim>\<open>null\<close>, not as
  \<^verbatim>\<open>"red"\<close>: line 69 compares the candidate without its \<^verbatim>\<open>$\<close> to \<^verbatim>\<open>var_names[-1]\<close>, which
  still has it, so the branch that tries the top-level segment is never entered.
\<close>

theorem parent_fallback_not_taken:
  \<open>resolve_variable ''c'' (PDict [(KStr ''c'', PStr ''red'')]) False = ok (PStr ''red'') \<and>
   resolve_variable ''c.d'' (PDict [(KStr ''c'', PStr ''red'')]) False = ok PNone \<and>
   substitute_variables (Suc fuel) ''"$c.d"'' (PDict [(KStr ''c'', PStr ''red'')]) False True
     = ok ''null'' \<and>
   substitute_variables (Suc fuel) ''"$x.y, $c.d"'' (PDict [(KStr ''c'', PStr ''red'')]) False True
     = ok ''null''\<close>
  by code_simp

text \<open>
  Claim C8 (booleans are treated as absent, without an error) does not hold of the code
  when the placeholder carries an alpha token: with \<open>a\<close> bound to \<^verbatim>\<open>true\<close>, materializing
  \<^verbatim>\<open>"$a..7f"\<close> raises \<^verbatim>\<open>TypeError\<close>, from \<^verbatim>\<open>re.search(ALPHA_PATTERN, value)\<close> in line 46.
\<close>

theorem boolean_with_alpha_raises:
  \<open>substitute_variables (Suc fuel) ''"$a..7f"'' (PDict [(KStr ''a'', PBool True)]) False True
     = raise TypeError\<close>
  by code_simp

section \<open>Outcomes and dictionaries\<close>

lemma bind_ok [simp]: "bind (ok x) f = f x"
  by (simp add: bind_def ok_def)

lemma bind_raise [simp]: "bind (raise e) f = raise e"
  by (simp add: bind_def raise_def)


lemma ok_neq_raise [simp]: "ok x \<noteq> raise e" "raise e \<noteq> ok x"
  by (simp_all add: ok_def raise_def)

lemma ok_inject [simp]: "ok x = ok y \<longleftrightarrow> x = y"
  by (simp add: ok_def)







section \<open>Facts about the override engine\<close>

text \<open>
  Claim C5 (a \<^verbatim>\<open>false\<close> override is stored as null) does not hold of the code for a key
  without a dot: line 222 stores the value and continues before line 259 turns
  \<^verbatim>\<open>False\<close> into \<^verbatim>\<open>None\<close>. The override \<^verbatim>\<open>appearance = false\<close> leaves the boolean in the
  theme, while the dotted \<^verbatim>\<open>"style.border" = false\<close> stores null.
\<close>

theorem false_override_plain_key:
  "apply_direct_overrides (PDict [(KStr ''appearance'', PStr ''dark'')]) (PDict [])
       [(''appearance'', PBool False)]
     = ok (PDict [(KStr ''appearance'', PBool False)]) \<and>
   apply_direct_overrides (PDict [(KStr ''style'', PDict [(KStr ''border'', PStr ''#000'')])]) (PDict [])
       [(''style.border'', PBool False)]
     = ok (PDict [(KStr ''style'', PDict [(KStr ''border'', PNone)])])"
  by code_simp

text \<open>
  Claim C6 (a deletion path through a missing container leaves the theme unchanged) does
  not hold of the code: for the path \<^verbatim>\<open>syntax.name\<close> and a theme without \<^verbatim>\<open>syntax\<close>, the
  \<^verbatim>\<open>continue\<close> of line 126 skips the missing segment only, and the last segment is then
  deleted from the container reached so far, here the top-level key \<^verbatim>\<open>name\<close>.
\<close>

theorem deletion_missing_container:
  "apply_deletions
       (PDict [(KStr ''name'', PStr ''One''), (KStr ''style'', PDict [(KStr ''background'', PStr ''#000'')])])
       (PDict [(KStr ''deletions'', PDict [(KStr ''keys'', PList [PStr ''syntax.name''])])])
     = ok (PDict [(KStr ''style'', PDict [(KStr ''background'', PStr ''#000'')])])"
  by code_simp
















section \<open>Facts about the reverse extractor\<close>


lemma store_back_dict [simp]: "store_back (PDict kvs) k v = PDict (dict_set kvs k v)"
  by (simp add: store_back_def)

lemma list_index_nat [simp]: "i < length xs \<Longrightarrow> list_index xs (int i) = Some i"
  by (simp add: list_index_def)




lemma py_in_dict [simp]: "py_in k (PDict kvs) = ok (k \<in> set (map fst kvs))"
  by (simp add: py_in_def)

lemma map_of_in_keys: "map_of kvs k = Some v \<Longrightarrow> k \<in> set (map fst kvs)"
  by (metis domI dom_map_of_conv_image_fst set_map)






section \<open>Facts about the palette\<close>

text \<open>
  Claim C3 (each override counts once) does not hold of the code: an override present in
  the input is counted by the loop of line 556 and again by the loop of line 566, which
  runs over all overrides after \<^verbatim>\<open>cleanup_variables\<close>. A color that occurs in one override
  and nowhere else has frequency 2, and is given a palette name at threshold 1.
\<close>

theorem override_counted_twice:
  "color_counts py_str [] [(''border'', PStr ''#FF0000'')] [] = ok [(''#FF0000'', 2)] \<and>
   handle_colors py_str [] [(''border'', PStr ''#FF0000'')] [] 1
     = ok ([(''#FF0000'', ''$colors.color1'')], [], [(''border'', PStr ''$colors.color1'')], [])"
  by code_simp



















end
